theory Spec2Isabelle
  imports Main "HOL-Library.Sublist"
begin

section \<open>The aggregate function interface (IAggregateFunction.h)\<close>

text \<open>
  \<^verbatim>\<open>IAggregateFunction\<close> is an abstract class. An instance holds only the description of an
  aggregate function; the data being aggregated lives in raw memory owned by the caller and
  is reached through \<^verbatim>\<open>char *\<close> pointers. Most member functions are pure virtual
  (\<^verbatim>\<open>= 0\<close>) and have no body in the header. Four of them carry a default body:
  \<^verbatim>\<open>setParameters\<close>, \<^verbatim>\<open>serializeText\<close>, \<^verbatim>\<open>deserializeMergeText\<close> and \<^verbatim>\<open>canBeFinal\<close>.
  The development below embeds these four bodies and the virtual dispatch that selects them.
\<close>

subsection \<open>Exceptions\<close>

text \<open>
  The two error codes the header refers to. Their numeric values are declared in another
  header; only their identity matters here.
\<close>

datatype ErrorCode =
    AGGREGATE_FUNCTION_DOESNT_ALLOW_PARAMETERS
  | NOT_IMPLEMENTED

text \<open>\<^verbatim>\<open>Exception(msg, code)\<close>: a message and an error code.\<close>

datatype Exception = Exception (message: string) (code: ErrorCode)

text \<open>
  A member function runs on a state \<open>'s\<close> and either returns a value or throws. A C++
  \<^verbatim>\<open>throw\<close> does not roll anything back, so the state reached at the point of the throw
  is part of the outcome: an outcome is a pair of the result (\<open>Inl\<close> the exception that
  left the call, \<open>Inr\<close> the returned value) and the state the call leaves behind.
\<close>

type_synonym ('s, 'a) call = "'s \<Rightarrow> (Exception + 'a) \<times> 's"

definition throw :: "Exception \<Rightarrow> ('s, 'a) call" where
  "throw e = (\<lambda>s. (Inl e, s))"

subsection \<open>Memory and buffers\<close>

text \<open>
  \<^verbatim>\<open>typedef char * AggregateDataPtr\<close> and \<^verbatim>\<open>typedef const char * ConstAggregateDataPtr\<close>:
  an address into the caller's memory, which is a store of bytes.
\<close>

type_synonym AggregateDataPtr = nat
type_synonym ConstAggregateDataPtr = nat
type_synonym memory = "nat \<Rightarrow> char"

text \<open>
  Modelled from the spec: the classes \<^verbatim>\<open>ReadBuffer\<close> and \<^verbatim>\<open>WriteBuffer\<close> are declared in
  another header. The spec describes them as the reader a serialized state is consumed from
  and the writer it is emitted to. A read buffer is the bytes it holds and the position of
  the next byte to consume; a write buffer is the bytes written so far.
\<close>

record ReadBuffer =
  rb_bytes :: string
  rb_pos :: nat

record WriteBuffer =
  wb_bytes :: string

text \<open>
  What a call of a data member function can reach: the function object itself
  (\<^verbatim>\<open>this\<close>), the memory the data pointers point into, and the buffer passed by reference.
\<close>

record ('self, 'buf) machine =
  this :: 'self
  mem :: memory
  buffer :: 'buf

subsection \<open>The class and its virtual dispatch\<close>

text \<open>
  A concrete aggregate function is a class derived from \<^verbatim>\<open>IAggregateFunction\<close>. It must
  define the pure virtual \<^verbatim>\<open>getName\<close>, and it may override each of the four member functions
  that have a default body. The record holds what the derived class provides: \<open>None\<close> in an
  override slot means that the class does not override, so that a virtual call reaches the
  body of the base class. \<open>'self\<close> is the type of the member data of the derived class and
  \<open>'field\<close> the element type of \<^verbatim>\<open>Array\<close>. \<^verbatim>\<open>getName\<close> and \<^verbatim>\<open>canBeFinal\<close> are
  \<^verbatim>\<open>const\<close> and return a value, so they are functions of the member data.
\<close>

record ('self, 'field) IAggregateFunction =
  getName :: "'self \<Rightarrow> string"
  setParameters_override :: "('field list \<Rightarrow> ('self, unit) call) option"
  serializeText_override ::
    "(ConstAggregateDataPtr \<Rightarrow> (('self, WriteBuffer) machine, unit) call) option"
  deserializeMergeText_override ::
    "(AggregateDataPtr \<Rightarrow> (('self, ReadBuffer) machine, unit) call) option"
  canBeFinal_override :: "('self \<Rightarrow> bool) option"

text \<open>The bodies written in the base class.\<close>

definition IAggregateFunction_setParameters ::
  "('self, 'field) IAggregateFunction \<Rightarrow> 'field list \<Rightarrow> ('self, unit) call" where
  "IAggregateFunction_setParameters f params = (\<lambda>self.
     throw (Exception (''Aggregate function '' @ getName f self @ '' doesn't allow parameters.'')
              AGGREGATE_FUNCTION_DOESNT_ALLOW_PARAMETERS) self)"

definition IAggregateFunction_serializeText ::
  "('self, 'field) IAggregateFunction \<Rightarrow> ConstAggregateDataPtr
     \<Rightarrow> (('self, WriteBuffer) machine, unit) call" where
  "IAggregateFunction_serializeText f place = (\<lambda>m.
     throw (Exception (''Method serializeText is not supported for '' @ getName f (this m) @ ''.'')
              NOT_IMPLEMENTED) m)"

definition IAggregateFunction_deserializeMergeText ::
  "('self, 'field) IAggregateFunction \<Rightarrow> AggregateDataPtr
     \<Rightarrow> (('self, ReadBuffer) machine, unit) call" where
  "IAggregateFunction_deserializeMergeText f place = (\<lambda>m.
     throw (Exception (''Method deserializeMergeText is not supported for '' @ getName f (this m) @ ''.'')
              NOT_IMPLEMENTED) m)"

definition IAggregateFunction_canBeFinal :: "('self, 'field) IAggregateFunction \<Rightarrow> 'self \<Rightarrow> bool" where
  "IAggregateFunction_canBeFinal f self = True"

text \<open>A virtual call runs the override of the derived class when there is one.\<close>

definition virtual_setParameters ::
  "('self, 'field) IAggregateFunction \<Rightarrow> 'field list \<Rightarrow> ('self, unit) call" where
  "virtual_setParameters f params =
     (case setParameters_override f of
        None \<Rightarrow> IAggregateFunction_setParameters f params
      | Some body \<Rightarrow> body params)"

definition virtual_serializeText ::
  "('self, 'field) IAggregateFunction \<Rightarrow> ConstAggregateDataPtr
     \<Rightarrow> (('self, WriteBuffer) machine, unit) call" where
  "virtual_serializeText f place =
     (case serializeText_override f of
        None \<Rightarrow> IAggregateFunction_serializeText f place
      | Some body \<Rightarrow> body place)"

definition virtual_deserializeMergeText ::
  "('self, 'field) IAggregateFunction \<Rightarrow> AggregateDataPtr
     \<Rightarrow> (('self, ReadBuffer) machine, unit) call" where
  "virtual_deserializeMergeText f place =
     (case deserializeMergeText_override f of
        None \<Rightarrow> IAggregateFunction_deserializeMergeText f place
      | Some body \<Rightarrow> body place)"

definition virtual_canBeFinal :: "('self, 'field) IAggregateFunction \<Rightarrow> 'self \<Rightarrow> bool" where
  "virtual_canBeFinal f self =
     (case canBeFinal_override f of
        None \<Rightarrow> IAggregateFunction_canBeFinal f self
      | Some body \<Rightarrow> body self)"

subsection \<open>Two derived classes to run the definitions on\<close>

text \<open>
  A class that defines \<^verbatim>\<open>getName\<close> and overrides nothing, with no member data, and a class
  that overrides all four member functions: it accepts any parameters, writes and reads
  nothing, and cannot be final.
\<close>

definition plain_function :: "(unit, nat) IAggregateFunction" where
  "plain_function =
     \<lparr> getName = (\<lambda>_. ''count''),
       setParameters_override = None,
       serializeText_override = None,
       deserializeMergeText_override = None,
       canBeFinal_override = None \<rparr>"

definition overriding_function :: "(unit, nat) IAggregateFunction" where
  "overriding_function =
     \<lparr> getName = (\<lambda>_. ''state''),
       setParameters_override = Some (\<lambda>params self. (Inr (), self)),
       serializeText_override = Some (\<lambda>place m. (Inr (), m)),
       deserializeMergeText_override = Some (\<lambda>place m. (Inr (), m)),
       canBeFinal_override = Some (\<lambda>self. False) \<rparr>"

definition zero_memory :: memory where
  "zero_memory = (\<lambda>a. CHR 0x00)"

definition write_machine :: "(unit, WriteBuffer) machine" where
  "write_machine = \<lparr> this = (), mem = zero_memory, buffer = \<lparr> wb_bytes = ''ab'' \<rparr> \<rparr>"

definition read_machine :: "(unit, ReadBuffer) machine" where
  "read_machine = \<lparr> this = (), mem = zero_memory, buffer = \<lparr> rb_bytes = ''12 34'', rb_pos = 3 \<rparr> \<rparr>"

section \<open>Properties of the default bodies\<close>

subsection \<open>What a virtual call does when the class does not override\<close>

lemma throw_outcome: "throw e s = (Inl e, s)"
  by (simp add: throw_def)

lemma name_in_message: "sublist name (before @ name @ after)"
  by (rule sublist_appendI)

lemma setParameters_not_overridden:
  assumes "setParameters_override f = None"
  shows "virtual_setParameters f params self =
           (Inl (Exception (''Aggregate function '' @ getName f self @ '' doesn't allow parameters.'')
                   AGGREGATE_FUNCTION_DOESNT_ALLOW_PARAMETERS), self)"
proof -
  have "virtual_setParameters f params = IAggregateFunction_setParameters f params"
    using assms by (simp add: virtual_setParameters_def)
  then show ?thesis
    unfolding IAggregateFunction_setParameters_def by (simp only: throw_outcome)
qed

lemma serializeText_not_overridden:
  assumes "serializeText_override f = None"
  shows "virtual_serializeText f place w =
           (Inl (Exception (''Method serializeText is not supported for '' @ getName f (this w) @ ''.'')
                   NOT_IMPLEMENTED), w)"
proof -
  have "virtual_serializeText f place = IAggregateFunction_serializeText f place"
    using assms by (simp add: virtual_serializeText_def)
  then show ?thesis
    unfolding IAggregateFunction_serializeText_def by (simp only: throw_outcome)
qed

lemma deserializeMergeText_not_overridden:
  assumes "deserializeMergeText_override f = None"
  shows "virtual_deserializeMergeText f place r =
           (Inl (Exception (''Method deserializeMergeText is not supported for '' @ getName f (this r) @ ''.'')
                   NOT_IMPLEMENTED), r)"
proof -
  have "virtual_deserializeMergeText f place = IAggregateFunction_deserializeMergeText f place"
    using assms by (simp add: virtual_deserializeMergeText_def)
  then show ?thesis
    unfolding IAggregateFunction_deserializeMergeText_def by (simp only: throw_outcome)
qed

text \<open>
  The override slots matter: the class that overrides all four member functions returns
  normally from each of them, and is not final.
\<close>

lemma overriding_function_runs:
  "fst (virtual_setParameters overriding_function [1, 2] ()) = Inr ()
   \<and> fst (virtual_serializeText overriding_function 0 write_machine) = Inr ()
   \<and> fst (virtual_deserializeMergeText overriding_function 0 read_machine) = Inr ()
   \<and> \<not> virtual_canBeFinal overriding_function ()"
  by (simp add: overriding_function_def virtual_setParameters_def virtual_serializeText_def
      virtual_deserializeMergeText_def virtual_canBeFinal_def)

lemma plain_function_overrides_nothing:
  "setParameters_override plain_function = None"
  "serializeText_override plain_function = None"
  "deserializeMergeText_override plain_function = None"
  "canBeFinal_override plain_function = None"
  "getName plain_function u = ''count''"
  by (simp_all add: plain_function_def)

subsection \<open>setParameters\<close>

text \<open>
  Claim C3. A call of \<^verbatim>\<open>setParameters\<close> on a function whose class does not override it
  throws, whatever the parameter array is. The exception carries the code
  \<^verbatim>\<open>AGGREGATE_FUNCTION_DOESNT_ALLOW_PARAMETERS\<close>, and its message is
  "Aggregate function NAME doesn't allow parameters." with NAME the result of
  \<^verbatim>\<open>getName\<close>, so the message contains the name of the function.
\<close>

theorem setParameters_default_throws:
  assumes "setParameters_override f = None"
  shows "\<exists>e. fst (virtual_setParameters f params self) = Inl e
           \<and> code e = AGGREGATE_FUNCTION_DOESNT_ALLOW_PARAMETERS
           \<and> message e = ''Aggregate function '' @ getName f self @ '' doesn't allow parameters.''
           \<and> sublist (getName f self) (message e)"
proof -
  let ?e = "Exception (''Aggregate function '' @ getName f self @ '' doesn't allow parameters.'')
              AGGREGATE_FUNCTION_DOESNT_ALLOW_PARAMETERS"
  have thrown: "fst (virtual_setParameters f params self) = Inl ?e"
    by (simp only: setParameters_not_overridden [OF assms] fst_conv)
  have named: "sublist (getName f self) (message ?e)"
    unfolding Exception.sel by (rule name_in_message)
  from thrown named show ?thesis
    by (intro exI [of _ ?e] conjI) (simp_all only: Exception.sel)
qed

theorem setParameters_default_throws_witness:
  "setParameters_override plain_function = None
   \<and> (\<exists>e. fst (virtual_setParameters plain_function [10, 20] ()) = Inl e
          \<and> code e = AGGREGATE_FUNCTION_DOESNT_ALLOW_PARAMETERS
          \<and> message e = ''Aggregate function count doesn't allow parameters.''
          \<and> sublist ''count'' (message e))"
proof -
  have h: "setParameters_override plain_function = None"
    by (simp add: plain_function_overrides_nothing)
  show ?thesis
    using h setParameters_default_throws [OF h, of "[10, 20]" "()"]
    by (simp add: plain_function_overrides_nothing)
qed

subsection \<open>serializeText and deserializeMergeText\<close>

text \<open>
  Claim C5. A call of \<^verbatim>\<open>serializeText\<close> on a function whose class does not override it
  throws, whatever the address and the buffer are, and so does a call of
  \<^verbatim>\<open>deserializeMergeText\<close> on a function whose class does not override that one. The
  exception carries the code \<^verbatim>\<open>NOT_IMPLEMENTED\<close>, and its message is
  "Method serializeText is not supported for NAME." (respectively
  "Method deserializeMergeText is not supported for NAME.") with NAME the result of
  \<^verbatim>\<open>getName\<close>, so the message contains the name of the function.
\<close>

theorem text_methods_default_throw:
  "(serializeText_override f = None \<longrightarrow>
      (\<exists>e. fst (virtual_serializeText f place w) = Inl e
          \<and> code e = NOT_IMPLEMENTED
          \<and> message e = ''Method serializeText is not supported for '' @ getName f (this w) @ ''.''
          \<and> sublist (getName f (this w)) (message e)))
   \<and> (deserializeMergeText_override f = None \<longrightarrow>
      (\<exists>e. fst (virtual_deserializeMergeText f place' r) = Inl e
          \<and> code e = NOT_IMPLEMENTED
          \<and> message e = ''Method deserializeMergeText is not supported for '' @ getName f (this r) @ ''.''
          \<and> sublist (getName f (this r)) (message e)))"
proof (intro conjI impI)
  assume h: "serializeText_override f = None"
  let ?e = "Exception (''Method serializeText is not supported for '' @ getName f (this w) @ ''.'')
              NOT_IMPLEMENTED"
  have thrown: "fst (virtual_serializeText f place w) = Inl ?e"
    by (simp only: serializeText_not_overridden [OF h] fst_conv)
  have named: "sublist (getName f (this w)) (message ?e)"
    unfolding Exception.sel by (rule name_in_message)
  from thrown named
  show "\<exists>e. fst (virtual_serializeText f place w) = Inl e
          \<and> code e = NOT_IMPLEMENTED
          \<and> message e = ''Method serializeText is not supported for '' @ getName f (this w) @ ''.''
          \<and> sublist (getName f (this w)) (message e)"
    by (intro exI [of _ ?e] conjI) (simp_all only: Exception.sel)
next
  assume h: "deserializeMergeText_override f = None"
  let ?e = "Exception (''Method deserializeMergeText is not supported for '' @ getName f (this r) @ ''.'')
              NOT_IMPLEMENTED"
  have thrown: "fst (virtual_deserializeMergeText f place' r) = Inl ?e"
    by (simp only: deserializeMergeText_not_overridden [OF h] fst_conv)
  have named: "sublist (getName f (this r)) (message ?e)"
    unfolding Exception.sel by (rule name_in_message)
  from thrown named
  show "\<exists>e. fst (virtual_deserializeMergeText f place' r) = Inl e
          \<and> code e = NOT_IMPLEMENTED
          \<and> message e = ''Method deserializeMergeText is not supported for '' @ getName f (this r) @ ''.''
          \<and> sublist (getName f (this r)) (message e)"
    by (intro exI [of _ ?e] conjI) (simp_all only: Exception.sel)
qed

theorem text_methods_default_throw_witness:
  "serializeText_override plain_function = None
   \<and> deserializeMergeText_override plain_function = None
   \<and> (\<exists>e. fst (virtual_serializeText plain_function 16 write_machine) = Inl e
          \<and> code e = NOT_IMPLEMENTED
          \<and> message e = ''Method serializeText is not supported for count.''
          \<and> sublist ''count'' (message e))
   \<and> (\<exists>e. fst (virtual_deserializeMergeText plain_function 32 read_machine) = Inl e
          \<and> code e = NOT_IMPLEMENTED
          \<and> message e = ''Method deserializeMergeText is not supported for count.''
          \<and> sublist ''count'' (message e))"
  using text_methods_default_throw [of plain_function 16 write_machine 32 read_machine]
  by (simp add: plain_function_overrides_nothing)

subsection \<open>canBeFinal\<close>

text \<open>
  Claim C8. For a function whose class does not override \<^verbatim>\<open>canBeFinal\<close>, a call of
  \<^verbatim>\<open>canBeFinal\<close> returns true.
\<close>

theorem canBeFinal_default_true:
  assumes "canBeFinal_override f = None"
  shows "virtual_canBeFinal f self = True"
  using assms by (simp add: virtual_canBeFinal_def IAggregateFunction_canBeFinal_def)

theorem canBeFinal_default_true_witness:
  "canBeFinal_override plain_function = None \<and> virtual_canBeFinal plain_function () = True"
proof -
  have h: "canBeFinal_override plain_function = None"
    by (simp add: plain_function_overrides_nothing)
  from h canBeFinal_default_true [OF h, of "()"] show ?thesis
    by (intro conjI)
qed

subsection \<open>The default bodies change nothing\<close>

text \<open>
  Claim C10. When the body of the base class is the one that runs, \<^verbatim>\<open>setParameters\<close>,
  \<^verbatim>\<open>serializeText\<close> and \<^verbatim>\<open>deserializeMergeText\<close> throw and leave behind the state they
  were called in: the function object is the same after \<^verbatim>\<open>setParameters\<close>; the function
  object, the whole memory (so the aggregation state at the address passed) and the buffer
  are the same after \<^verbatim>\<open>serializeText\<close> and after \<^verbatim>\<open>deserializeMergeText\<close>. In particular
  the write buffer has received no byte and the read position of the read buffer has not
  moved.
\<close>

theorem default_throw_changes_nothing:
  "(setParameters_override f = None \<longrightarrow>
      (\<exists>e. virtual_setParameters f params self = (Inl e, self)))
   \<and> (serializeText_override f = None \<longrightarrow>
      (\<exists>e. virtual_serializeText f place w = (Inl e, w))
      \<and> this (snd (virtual_serializeText f place w)) = this w
      \<and> mem (snd (virtual_serializeText f place w)) place = mem w place
      \<and> wb_bytes (buffer (snd (virtual_serializeText f place w))) = wb_bytes (buffer w))
   \<and> (deserializeMergeText_override f = None \<longrightarrow>
      (\<exists>e. virtual_deserializeMergeText f place' r = (Inl e, r))
      \<and> this (snd (virtual_deserializeMergeText f place' r)) = this r
      \<and> mem (snd (virtual_deserializeMergeText f place' r)) place' = mem r place'
      \<and> rb_pos (buffer (snd (virtual_deserializeMergeText f place' r))) = rb_pos (buffer r)
      \<and> rb_bytes (buffer (snd (virtual_deserializeMergeText f place' r))) = rb_bytes (buffer r))"
proof (intro conjI impI)
  assume "setParameters_override f = None"
  from setParameters_not_overridden [OF this, of params self]
  show "\<exists>e. virtual_setParameters f params self = (Inl e, self)"
    by (intro exI)
next
  assume h: "serializeText_override f = None"
  note out = serializeText_not_overridden [OF h, of place w]
  from out show "\<exists>e. virtual_serializeText f place w = (Inl e, w)"
    by (intro exI)
  show "this (snd (virtual_serializeText f place w)) = this w"
    by (simp only: out snd_conv)
  show "mem (snd (virtual_serializeText f place w)) place = mem w place"
    by (simp only: out snd_conv)
  show "wb_bytes (buffer (snd (virtual_serializeText f place w))) = wb_bytes (buffer w)"
    by (simp only: out snd_conv)
next
  assume h: "deserializeMergeText_override f = None"
  note out = deserializeMergeText_not_overridden [OF h, of place' r]
  from out show "\<exists>e. virtual_deserializeMergeText f place' r = (Inl e, r)"
    by (intro exI)
  show "this (snd (virtual_deserializeMergeText f place' r)) = this r"
    by (simp only: out snd_conv)
  show "mem (snd (virtual_deserializeMergeText f place' r)) place' = mem r place'"
    by (simp only: out snd_conv)
  show "rb_pos (buffer (snd (virtual_deserializeMergeText f place' r))) = rb_pos (buffer r)"
    by (simp only: out snd_conv)
  show "rb_bytes (buffer (snd (virtual_deserializeMergeText f place' r))) = rb_bytes (buffer r)"
    by (simp only: out snd_conv)
qed

theorem default_throw_changes_nothing_witness:
  "setParameters_override plain_function = None
   \<and> serializeText_override plain_function = None
   \<and> deserializeMergeText_override plain_function = None
   \<and> (\<exists>e. virtual_setParameters plain_function [10, 20] () = (Inl e, ()))
   \<and> (\<exists>e. virtual_serializeText plain_function 16 write_machine = (Inl e, write_machine))
   \<and> wb_bytes (buffer (snd (virtual_serializeText plain_function 16 write_machine))) = ''ab''
   \<and> (\<exists>e. virtual_deserializeMergeText plain_function 32 read_machine = (Inl e, read_machine))
   \<and> rb_pos (buffer (snd (virtual_deserializeMergeText plain_function 32 read_machine))) = 3
   \<and> mem (snd (virtual_deserializeMergeText plain_function 32 read_machine)) 32 = CHR 0x00"
proof -
  have ms: "wb_bytes (buffer write_machine) = ''ab''" "rb_pos (buffer read_machine) = 3"
    "mem read_machine 32 = CHR 0x00"
    by (simp_all add: write_machine_def read_machine_def zero_memory_def)
  show ?thesis
    using default_throw_changes_nothing
      [of plain_function "[10, 20]" "()" 16 write_machine 32 read_machine]
    by (simp add: plain_function_overrides_nothing ms)
qed

end
